theory Spec2Isabelle
  imports Main
begin

section \<open>The platform objects the handlers of HoverExample touch\<close>

text \<open>
  \<^verbatim>\<open>HoverExample\<close> (src/src/App.tsx, lines 21 to 55) is a React function component with
  one state cell, \<^verbatim>\<open>dragOver\<close>, and five callbacks. The callbacks touch three things that
  the host platform provides: the \<^verbatim>\<open>dataTransfer\<close> of a drag event, the event's
  \<^verbatim>\<open>preventDefault\<close>, and \<^verbatim>\<open>console.log\<close>. Each of them is a value here, so that every
  effect of a callback is visible in what it returns.
\<close>

text \<open>
  The transfer channel: the data of a drag session, one string per data kind (format).
\<close>

type_synonym DataTransfer = "string \<rightharpoonup> string"

text \<open>
  Modelled from the spec: \<^verbatim>\<open>DataTransfer.setData\<close> and \<^verbatim>\<open>DataTransfer.getData\<close> belong to
  the host platform, not to the repository. The spec (sections 6 and 7) describes the
  channel as a key/value store with set/get semantics for a plain-text data kind, where
  reading an absent value yields the empty string rather than a signalled failure.
\<close>

definition setData :: "string \<Rightarrow> string \<Rightarrow> DataTransfer \<Rightarrow> DataTransfer" where
  "setData format data dt = dt(format \<mapsto> data)"

definition getData :: "string \<Rightarrow> DataTransfer \<Rightarrow> string" where
  "getData format dt = (case dt format of None \<Rightarrow> [] | Some data \<Rightarrow> data)"

text \<open>
  A \<^verbatim>\<open>React.DragEvent\<close>, with the three parts the callbacks read or write: the transfer
  channel, the \<^verbatim>\<open>id\<close> of \<^verbatim>\<open>currentTarget\<close> (the empty string for an element without an
  \<^verbatim>\<open>id\<close> attribute), and whether the default action has been suppressed.
\<close>

record DragEvent =
  dataTransfer :: DataTransfer
  currentTarget_id :: string
  defaultPrevented :: bool

text \<open>
  \<^verbatim>\<open>event.preventDefault()\<close>: the drag events of the platform are cancelable, so the call
  always marks the event.
\<close>

definition preventDefault :: "DragEvent \<Rightarrow> DragEvent" where
  "preventDefault event = event\<lparr>defaultPrevented := True\<rparr>"

text \<open>
  What a callback can change besides its event: the state cell of the component
  (\<^verbatim>\<open>const [dragOver, setDragOver] = React.useState(false)\<close>, line 22) and the lines written
  to the console so far, oldest first.
\<close>

record panel =
  dragOver :: bool
  console :: "string list"

definition setDragOver :: "bool \<Rightarrow> panel \<Rightarrow> panel" where
  "setDragOver b p = p\<lparr>dragOver := b\<rparr>"

definition console_log :: "string \<Rightarrow> panel \<Rightarrow> panel" where
  "console_log line p = p\<lparr>console := console p @ [line]\<rparr>"

text \<open>The component as mounted: \<^verbatim>\<open>useState(false)\<close>, nothing logged.\<close>

definition mount :: panel where
  "mount = \<lparr>dragOver = False, console = []\<rparr>"

section \<open>The callbacks\<close>

text \<open>
  Lines 23 and 24:
  \<^verbatim>\<open>const handleDragOverStart = () => setDragOver(true);\<close>
  \<^verbatim>\<open>const handleDragOverEnd = () => setDragOver(false);\<close>
\<close>

definition handleDragOverStart :: "panel \<Rightarrow> panel" where
  "handleDragOverStart p = setDragOver True p"

definition handleDragOverEnd :: "panel \<Rightarrow> panel" where
  "handleDragOverEnd p = setDragOver False p"

text \<open>
  Lines 26 to 28:
  \<^verbatim>\<open>event.dataTransfer.setData('text', event.currentTarget.id);\<close>
  A callback with an event argument returns the event as it left it, and the panel.
\<close>

definition handleDragStart :: "DragEvent \<Rightarrow> panel \<Rightarrow> DragEvent \<times> panel" where
  "handleDragStart event p =
     (event\<lparr>dataTransfer := setData ''text'' (currentTarget_id event) (dataTransfer event)\<rparr>, p)"

text \<open>Lines 30 to 32: \<^verbatim>\<open>event.preventDefault();\<close>\<close>

definition enableDropping :: "DragEvent \<Rightarrow> panel \<Rightarrow> DragEvent \<times> panel" where
  "enableDropping event p = (preventDefault event, p)"

text \<open>
  Lines 34 to 38:
  \<^verbatim>\<open>const id = event.dataTransfer.getData('text');\<close>
  \<^verbatim>\<open>console.log(`Somebody dropped an element with id: ${id}`);\<close>
  \<^verbatim>\<open>setDragOver(false);\<close>
\<close>

definition handleDrop :: "DragEvent \<Rightarrow> panel \<Rightarrow> DragEvent \<times> panel" where
  "handleDrop event p =
     (let ident = getData ''text'' (dataTransfer event);
          p1 = console_log (''Somebody dropped an element with id: '' @ ident) p;
          p2 = setDragOver False p1
      in (event, p2))"

section \<open>What the component renders\<close>

text \<open>
  Lines 40 to 54. The three children of the outer \<^verbatim>\<open>div\<close>, each with the attributes the
  markup gives it. A listener is a callback taking the event; the two callbacks of lines
  23 and 24 take no argument, so as listeners they ignore the event they are called with.
\<close>

type_synonym listener = "DragEvent \<Rightarrow> panel \<Rightarrow> DragEvent \<times> panel"

definition ignoring_event :: "(panel \<Rightarrow> panel) \<Rightarrow> listener" where
  "ignoring_event f event p = (event, f p)"

record element =
  elem_id :: string
  draggable :: bool
  onDragStart :: "listener option"
  onDragOver :: "listener option"
  onDrop :: "listener option"
  onDragEnter :: "listener option"
  onDragLeave :: "listener option"
  elem_style :: "(string \<times> string) list"
  elem_text :: string

datatype node = D1 | D2 | DropZone

text \<open>
  Line 49: \<^verbatim>\<open>style={ dragOver ? {fontWeight: 'bold', background: 'red'} : {} }\<close>
\<close>

definition dropZoneStyle :: "bool \<Rightarrow> (string \<times> string) list" where
  "dropZoneStyle hovering =
     (if hovering then [(''fontWeight'', ''bold''), (''background'', ''red'')] else [])"

fun render :: "panel \<Rightarrow> node \<Rightarrow> element" where
  "render p D1 =
     \<lparr>elem_id = ''d1'', draggable = True,
      onDragStart = Some handleDragStart, onDragOver = None, onDrop = None,
      onDragEnter = None, onDragLeave = None,
      elem_style = [], elem_text = ''Drag me''\<rparr>"
| "render p D2 =
     \<lparr>elem_id = ''d2'', draggable = True,
      onDragStart = Some handleDragStart, onDragOver = None, onDrop = None,
      onDragEnter = None, onDragLeave = None,
      elem_style = [], elem_text = ''... Or me!''\<rparr>"
| "render p DropZone =
     \<lparr>elem_id = [], draggable = False,
      onDragStart = None,
      onDragOver = Some enableDropping,
      onDrop = Some handleDrop,
      onDragEnter = Some (ignoring_event handleDragOverStart),
      onDragLeave = Some (ignoring_event handleDragOverEnd),
      elem_style = dropZoneStyle (dragOver p), elem_text = ''Drop Zone''\<rparr>"

section \<open>Delivering drag events to the rendered elements\<close>

text \<open>
  The platform delivers five kinds of drag event. An event of a kind, delivered to an
  element, runs the listener the element has for that kind, if it has one.
\<close>

datatype event_kind = DragStart | DragOver | DragEnter | DragLeave | Drop

fun listener_for :: "event_kind \<Rightarrow> element \<Rightarrow> listener option" where
  "listener_for DragStart el = onDragStart el"
| "listener_for DragOver el = onDragOver el"
| "listener_for DragEnter el = onDragEnter el"
| "listener_for DragLeave el = onDragLeave el"
| "listener_for Drop el = onDrop el"

text \<open>
  The page between two events: the panel, the data of the current drag session (which the
  platform carries from the drag-start to the drop), and whether the event delivered last
  had its default action suppressed.
\<close>

record page =
  ui :: panel
  dragData :: DataTransfer
  canceled :: bool

definition initial_page :: page where
  "initial_page = \<lparr>ui = mount, dragData = Map.empty, canceled = False\<rparr>"

text \<open>
  Delivering one event. A drag-start opens a new session, with an empty transfer channel;
  every other event carries the channel of the session. The event starts with its default
  action in force.
\<close>

definition fire :: "event_kind \<Rightarrow> node \<Rightarrow> page \<Rightarrow> page" where
  "fire k n pg =
     (let el = render (ui pg) n;
          event = \<lparr>dataTransfer = (if k = DragStart then Map.empty else dragData pg),
                   currentTarget_id = elem_id el,
                   defaultPrevented = False\<rparr>;
          (event', p') = (case listener_for k el of
                            None \<Rightarrow> (event, ui pg)
                          | Some h \<Rightarrow> h event (ui pg))
      in \<lparr>ui = p', dragData = dataTransfer event', canceled = defaultPrevented event'\<rparr>)"

fun run :: "(event_kind \<times> node) list \<Rightarrow> page \<Rightarrow> page" where
  "run [] pg = pg"
| "run (e # es) pg = run es (fire (fst e) (snd e) pg)"

text \<open>The drag-enter and drag-leave events of the drop target, in the order delivered.\<close>

definition hover_events :: "(event_kind \<times> node) list \<Rightarrow> (event_kind \<times> node) list" where
  "hover_events es =
     filter (\<lambda>e. e = (DragEnter, DropZone) \<or> e = (DragLeave, DropZone)) es"

text \<open>The two states of the drop target, read off the hover flag.\<close>

datatype target_state = Idle | Hovering

definition target_state_of :: "panel \<Rightarrow> target_state" where
  "target_state_of p = (if dragOver p then Hovering else Idle)"

section \<open>Facts about single events\<close>

lemma fire_ui_DropZone:
  "ui (fire DragEnter DropZone pg) = handleDragOverStart (ui pg)"
  "ui (fire DragLeave DropZone pg) = handleDragOverEnd (ui pg)"
  "ui (fire Drop DropZone pg) = snd (handleDrop
      \<lparr>dataTransfer = dragData pg, currentTarget_id = [], defaultPrevented = False\<rparr> (ui pg))"
  "ui (fire DragOver DropZone pg) = ui pg"
  "ui (fire DragStart DropZone pg) = ui pg"
  by (simp_all add: fire_def ignoring_event_def enableDropping_def handleDrop_def Let_def)

lemma fire_ui_source:
  "n \<noteq> DropZone \<Longrightarrow> ui (fire k n pg) = ui pg"
  by (cases n; cases k) (simp_all add: fire_def handleDragStart_def)

lemma run_append: "run (es @ fs) pg = run fs (run es pg)"
  by (induction es arbitrary: pg) simp_all

lemma fire_dragData_keep:
  "k \<noteq> DragStart \<Longrightarrow> dragData (fire k n pg) = dragData pg"
  by (cases n; cases k)
     (simp_all add: fire_def ignoring_event_def enableDropping_def preventDefault_def
        handleDrop_def Let_def)

lemma fire_console_keep:
  "k \<noteq> Drop \<Longrightarrow> console (ui (fire k n pg)) = console (ui pg)"
  by (cases n; cases k)
     (simp_all add: fire_def ignoring_event_def enableDropping_def handleDragStart_def
        handleDragOverStart_def handleDragOverEnd_def setDragOver_def Let_def)

lemma fire_dragOver_keep:
  "(k, n) \<noteq> (DragEnter, DropZone) \<Longrightarrow> (k, n) \<noteq> (DragLeave, DropZone) \<Longrightarrow>
   (k, n) \<noteq> (Drop, DropZone) \<Longrightarrow> dragOver (ui (fire k n pg)) = dragOver (ui pg)"
  by (cases n; cases k)
     (simp_all add: fire_def enableDropping_def handleDragStart_def Let_def)

lemma fire_DragStart_source:
  "dragData (fire DragStart D1 pg) = [''text'' \<mapsto> ''d1'']"
  "dragData (fire DragStart D2 pg) = [''text'' \<mapsto> ''d2'']"
  by (simp_all add: fire_def handleDragStart_def setData_def)

lemma fire_Drop_console:
  "console (ui (fire Drop DropZone pg)) =
     console (ui pg) @ [''Somebody dropped an element with id: '' @ getData ''text'' (dragData pg)]"
  by (simp add: fire_def handleDrop_def console_log_def setDragOver_def Let_def)

section \<open>The hover flag\<close>

text \<open>
  Without a drop on the target, the flag after a sequence of events is decided by the last
  drag-enter or drag-leave of the target in it, and is the flag before the sequence when
  there is none. The proof goes along the sequence from its first event.
\<close>

lemma run_dragOver_last:
  assumes "(Drop, DropZone) \<notin> set es"
  shows "dragOver (ui (run es pg)) =
    (if hover_events es = [] then dragOver (ui pg)
     else last (hover_events es) = (DragEnter, DropZone))"
  using assms
proof (induction es arbitrary: pg)
  case Nil
  then show ?case by (simp add: hover_events_def)
next
  case (Cons e es)
  obtain k n where e: "e = (k, n)" by (cases e)
  from Cons.prems have nd: "(Drop, DropZone) \<notin> set es" and ne: "(k, n) \<noteq> (Drop, DropZone)"
    by (auto simp: e)
  have IH: "dragOver (ui (run es (fire k n pg))) =
    (if hover_events es = [] then dragOver (ui (fire k n pg))
     else last (hover_events es) = (DragEnter, DropZone))"
    using Cons.IH [OF nd] .
  show ?case
  proof (cases "hover_events es = []")
    case False
    then show ?thesis using IH by (simp add: e hover_events_def)
  next
    case True
    consider (enter) "(k, n) = (DragEnter, DropZone)" | (leave) "(k, n) = (DragLeave, DropZone)"
      | (other) "(k, n) \<noteq> (DragEnter, DropZone)" "(k, n) \<noteq> (DragLeave, DropZone)"
      by blast
    then show ?thesis
    proof cases
      case enter
      then show ?thesis using IH True
        by (simp add: e hover_events_def fire_ui_DropZone handleDragOverStart_def setDragOver_def)
    next
      case leave
      then show ?thesis using IH True
        by (simp add: e hover_events_def fire_ui_DropZone handleDragOverEnd_def setDragOver_def)
    next
      case other
      then show ?thesis using IH True fire_dragOver_keep [OF other ne]
        by (auto simp add: e hover_events_def)
    qed
  qed
qed

text \<open>
  Claim C1. For every sequence of events in which no drop is delivered to the drop target,
  the hover flag afterwards is true exactly when the most recent drag-enter or drag-leave
  of the target was a drag-enter; nothing is counted, so one drag-leave after several
  drag-enters clears the flag. When the sequence has no such event the flag is what it was
  before, which is false for the component as mounted.
\<close>

theorem hover_flag_follows_last_enter_leave:
  assumes "(Drop, DropZone) \<notin> set es"
  shows "dragOver (ui (run es pg)) =
           (if hover_events es = [] then dragOver (ui pg)
            else last (hover_events es) = (DragEnter, DropZone))
       \<and> dragOver (ui (run es initial_page)) =
           (hover_events es \<noteq> [] \<and> last (hover_events es) = (DragEnter, DropZone))"
  using run_dragOver_last [OF assms, of pg] run_dragOver_last [OF assms, of initial_page]
  by (simp add: initial_page_def mount_def)

theorem hover_flag_follows_last_enter_leave_witness:
  "(Drop, DropZone) \<notin> set [(DragEnter, DropZone), (DragOver, DropZone), (DragEnter, DropZone),
                              (DragLeave, DropZone)]
   \<and> \<not> dragOver (ui (run [(DragEnter, DropZone), (DragOver, DropZone), (DragEnter, DropZone),
                             (DragLeave, DropZone)] initial_page))
   \<and> (Drop, DropZone) \<notin> set [(DragLeave, DropZone), (DragStart, D1), (DragEnter, DropZone)]
   \<and> dragOver (ui (run [(DragLeave, DropZone), (DragStart, D1), (DragEnter, DropZone)]
                      initial_page))"
  using hover_flag_follows_last_enter_leave
          [of "[(DragEnter, DropZone), (DragOver, DropZone), (DragEnter, DropZone),
                (DragLeave, DropZone)]" initial_page]
        hover_flag_follows_last_enter_leave
          [of "[(DragLeave, DropZone), (DragStart, D1), (DragEnter, DropZone)]" initial_page]
  by (simp add: hover_events_def)

text \<open>
  Claim C2. Whatever the hover flag was before, it is false after \<^verbatim>\<open>handleDrop\<close>: the
  callback resets it for every event and every panel, and so does a drop delivered to the
  drop target.
\<close>

theorem handleDrop_resets_hover:
  "dragOver (snd (handleDrop event p)) = False
   \<and> dragOver (ui (fire Drop DropZone pg)) = False"
  by (simp add: fire_ui_DropZone handleDrop_def Let_def setDragOver_def)

text \<open>
  Claim C7. The drag-enter and drag-leave callbacks are idempotent: applied twice they give
  what they give applied once, \<^verbatim>\<open>handleDragOverStart\<close> leaves a panel whose flag is true as
  it is, and \<^verbatim>\<open>handleDragOverEnd\<close> leaves a panel whose flag is false as it is.
\<close>

theorem hover_handlers_idempotent:
  "handleDragOverStart (handleDragOverStart p) = handleDragOverStart p
   \<and> handleDragOverEnd (handleDragOverEnd p) = handleDragOverEnd p
   \<and> handleDragOverStart (p\<lparr>dragOver := True\<rparr>) = p\<lparr>dragOver := True\<rparr>
   \<and> handleDragOverEnd (p\<lparr>dragOver := False\<rparr>) = p\<lparr>dragOver := False\<rparr>"
  by (simp add: handleDragOverStart_def handleDragOverEnd_def setDragOver_def)

text \<open>
  Claim C10. \<^verbatim>\<open>handleDragStart\<close> and \<^verbatim>\<open>enableDropping\<close> return the panel they were given,
  so a drag-start or a drag-over, delivered to any of the three elements, leaves the hover
  flag as it was.
\<close>

theorem dragStart_dragOver_keep_hover:
  "snd (handleDragStart event p) = p \<and> snd (enableDropping event p) = p
   \<and> dragOver (ui (fire DragStart n pg)) = dragOver (ui pg)
   \<and> dragOver (ui (fire DragOver n pg)) = dragOver (ui pg)"
  by (simp add: handleDragStart_def enableDropping_def fire_dragOver_keep)

text \<open>
  Claim C6. The drop target has two states, read off the hover flag. It is Idle when the
  component is mounted; a drag-enter of the target leads to Hovering from either state, a
  drag-leave and a drop lead to Idle from either state; drag-over and the events of the
  two sources leave the state as it is; after any sequence of events the state is one of
  the two; and from every state some event of the target leads to the other one, so
  neither state is terminal.
\<close>

theorem drop_target_two_states:
  "target_state_of mount = Idle
   \<and> target_state_of (ui initial_page) = Idle
   \<and> target_state_of (ui (fire DragEnter DropZone pg)) = Hovering
   \<and> target_state_of (ui (fire DragLeave DropZone pg)) = Idle
   \<and> target_state_of (ui (fire Drop DropZone pg)) = Idle
   \<and> target_state_of (ui (fire DragOver DropZone pg)) = target_state_of (ui pg)
   \<and> target_state_of (ui (fire k D1 pg)) = target_state_of (ui pg)
   \<and> target_state_of (ui (fire k D2 pg)) = target_state_of (ui pg)
   \<and> target_state_of (ui (run es pg)) \<in> {Idle, Hovering}
   \<and> (\<exists>k. target_state_of (ui (fire k DropZone pg)) \<noteq> target_state_of (ui pg))"
proof -
  have enter: "target_state_of (ui (fire DragEnter DropZone pg)) = Hovering"
    by (simp add: fire_ui_DropZone target_state_of_def handleDragOverStart_def setDragOver_def)
  have leave: "target_state_of (ui (fire DragLeave DropZone pg)) = Idle"
    by (simp add: fire_ui_DropZone target_state_of_def handleDragOverEnd_def setDragOver_def)
  have dropped: "target_state_of (ui (fire Drop DropZone pg)) = Idle"
    by (simp add: fire_ui_DropZone target_state_of_def handleDrop_def setDragOver_def Let_def)
  have two: "target_state_of (ui (run es pg)) \<in> {Idle, Hovering}"
    by (cases "target_state_of (ui (run es pg))") simp_all
  have moves: "\<exists>k. target_state_of (ui (fire k DropZone pg)) \<noteq> target_state_of (ui pg)"
  proof (cases "target_state_of (ui pg)")
    case Idle
    with enter show ?thesis by (intro exI [of _ DragEnter]) simp
  next
    case Hovering
    with leave show ?thesis by (intro exI [of _ DragLeave]) simp
  qed
  show ?thesis
    using enter leave dropped two moves
    by (simp add: fire_ui_DropZone fire_ui_source initial_page_def mount_def target_state_of_def)
qed

section \<open>The transfer channel and the logged line\<close>

text \<open>
  Claim C5. \<^verbatim>\<open>handleDragStart\<close> writes the \<^verbatim>\<open>id\<close> of the element the event is delivered to
  into the transfer channel under \<^verbatim>\<open>'text'\<close>, for every identifier (nothing is checked),
  and changes nothing else: the other data kinds, the rest of the event and the panel are
  as before. Reading \<^verbatim>\<open>'text'\<close> back gives the identifier.
\<close>

theorem handleDragStart_stores_id:
  "handleDragStart event p =
     (event\<lparr>dataTransfer := (dataTransfer event)(''text'' \<mapsto> currentTarget_id event)\<rparr>, p)
   \<and> getData ''text'' (dataTransfer (fst (handleDragStart event p))) = currentTarget_id event"
  by (simp add: handleDragStart_def setData_def getData_def)

text \<open>
  Claim C4. \<^verbatim>\<open>enableDropping\<close> suppresses the default action of every event it is given,
  whatever the event and the panel; it is the drag-over listener of the drop target, so
  every drag-over delivered to the target ends with its default action suppressed.
\<close>

theorem enableDropping_prevents_default:
  "defaultPrevented (fst (enableDropping event p)) = True
   \<and> onDragOver (render p DropZone) = Some enableDropping
   \<and> canceled (fire DragOver DropZone pg) = True"
  by (simp add: enableDropping_def preventDefault_def fire_def Let_def)

text \<open>
  Between the drag-start and the drop of a session, the events that are neither a
  drag-start nor a drop leave the transfer channel and the console as they are.
\<close>

lemma run_hovering_keeps:
  "\<forall>e\<in>set mid. fst e \<noteq> DragStart \<and> fst e \<noteq> Drop \<Longrightarrow>
   dragData (run mid pg) = dragData pg \<and> console (ui (run mid pg)) = console (ui pg)"
  by (induction mid arbitrary: pg) (simp_all add: fire_dragData_keep fire_console_keep)

text \<open>
  Claim C3. A drag session that starts with a drag-start on the source \<^verbatim>\<open>d1\<close>, goes on
  with any events that are neither a drag-start nor a drop, and ends with a drop on the
  target, adds exactly one line to the console,
  \<^verbatim>\<open>Somebody dropped an element with id: d1\<close>; the same holds for \<^verbatim>\<open>d2\<close> with its own
  identifier.
\<close>

theorem drop_logs_source_id:
  assumes "\<forall>e\<in>set mid. fst e \<noteq> DragStart \<and> fst e \<noteq> Drop"
  shows "console (ui (run ((DragStart, D1) # mid @ [(Drop, DropZone)]) pg)) =
           console (ui pg) @ [''Somebody dropped an element with id: d1'']
       \<and> console (ui (run ((DragStart, D2) # mid @ [(Drop, DropZone)]) pg)) =
           console (ui pg) @ [''Somebody dropped an element with id: d2'']"
proof -
  have step: "console (ui (run ((DragStart, n) # mid @ [(Drop, DropZone)]) pg)) =
      console (ui pg) @
        [''Somebody dropped an element with id: '' @ getData ''text'' (dragData (fire DragStart n pg))]"
    for n
  proof -
    let ?pg1 = "fire DragStart n pg"
    have "run ((DragStart, n) # mid @ [(Drop, DropZone)]) pg = fire Drop DropZone (run mid ?pg1)"
      by (simp add: run_append)
    moreover have "dragData (run mid ?pg1) = dragData ?pg1"
      and "console (ui (run mid ?pg1)) = console (ui ?pg1)"
      using run_hovering_keeps [OF assms, of ?pg1] by simp_all
    moreover have "console (ui ?pg1) = console (ui pg)"
      by (simp add: fire_console_keep)
    ultimately show ?thesis
      by (simp add: fire_Drop_console)
  qed
  show ?thesis
    using step [of D1] step [of D2]
    by (simp add: fire_DragStart_source getData_def)
qed

theorem drop_logs_source_id_witness:
  "console (ui (run [(DragStart, D1), (DragEnter, DropZone), (DragOver, DropZone), (Drop, DropZone)]
        initial_page)) = [''Somebody dropped an element with id: d1'']
   \<and> console (ui (run [(DragStart, D2), (DragEnter, DropZone), (DragOver, DropZone), (Drop, DropZone)]
        initial_page)) = [''Somebody dropped an element with id: d2'']"
  using drop_logs_source_id [of "[(DragEnter, DropZone), (DragOver, DropZone)]" initial_page]
  by (simp add: initial_page_def mount_def)

text \<open>
  Claim C9. When the transfer channel of a drop event holds nothing under \<^verbatim>\<open>'text'\<close>,
  reading it gives the empty string, and \<^verbatim>\<open>handleDrop\<close> returns as for any other event: the
  event unchanged, the line with an empty identifier added to the console, and the hover
  flag false.
\<close>

theorem handleDrop_absent_text:
  assumes "dataTransfer event ''text'' = None"
  shows "getData ''text'' (dataTransfer event) = []
    \<and> handleDrop event p =
        (event, \<lparr>dragOver = False,
                 console = console p @ [''Somebody dropped an element with id: '']\<rparr>)"
  using assms
  by (simp add: handleDrop_def getData_def console_log_def setDragOver_def Let_def)

theorem handleDrop_absent_text_witness:
  "dataTransfer \<lparr>dataTransfer = Map.empty, currentTarget_id = [], defaultPrevented = False\<rparr>
     ''text'' = None
   \<and> handleDrop \<lparr>dataTransfer = Map.empty, currentTarget_id = [], defaultPrevented = False\<rparr>
        \<lparr>dragOver = True, console = []\<rparr> =
      (\<lparr>dataTransfer = Map.empty, currentTarget_id = [], defaultPrevented = False\<rparr>,
       \<lparr>dragOver = False, console = [''Somebody dropped an element with id: '']\<rparr>)"
  using handleDrop_absent_text
          [of "\<lparr>dataTransfer = Map.empty, currentTarget_id = [], defaultPrevented = False\<rparr>"
              "\<lparr>dragOver = True, console = []\<rparr>"]
  by simp

section \<open>The style of the drop target\<close>

text \<open>
  Claim C8. The style the drop target is rendered with is a function of the hover flag
  alone: bold weight and a red background when the flag is true, the empty style when it
  is false, and the two differ.
\<close>

theorem dropZoneStyle_pure:
  "elem_style (render p DropZone) = dropZoneStyle (dragOver p)
   \<and> dropZoneStyle True = [(''fontWeight'', ''bold''), (''background'', ''red'')]
   \<and> dropZoneStyle False = []
   \<and> dropZoneStyle True \<noteq> dropZoneStyle False"
  by (simp add: dropZoneStyle_def)

end
